theory Spec2Isabelle
  imports Complex_Main
begin

section \<open>JavaScript values and strings\<close>

text \<open>
  A string is held as the UTF-8 encoding of the JavaScript string (well-formed text);
  the non-ASCII letters of the German literals in the source are written as their UTF-8
  bytes. On such text a byte-wise prefix or substring test gives what the test on the
  code units gives, \<open>trim\<close> removes the encodings of the code points that ECMAScript
  counts as white space or line terminators, and \<open>length\<close> counts UTF-16 code units.
  \<open>String.prototype.toLowerCase\<close> follows the Unicode case tables of the platform,
  which are no part of the repository: the functions that call it take it as the
  parameter \<open>toLowerCase\<close>.

  A parsed JSON body is a \<open>jsval\<close>; numbers are exact rationals (no claim depends
  on rounding). An object is its list of key/value pairs in source order, where a
  later duplicate key wins, as in \<open>JSON.parse\<close>.
\<close>

datatype jsval =
    Undefined
  | Null
  | JBool bool
  | JNum rat
  | JStr string
  | JArr "jsval list"
  | JObj "(string \<times> jsval) list"

datatype js_error = JsError (err_message: string)

fun truthy :: "jsval \<Rightarrow> bool" where
  "truthy Undefined = False"
| "truthy Null = False"
| "truthy (JBool b) = b"
| "truthy (JNum r) = (r \<noteq> 0)"
| "truthy (JStr s) = (s \<noteq> [])"
| "truthy (JArr xs) = True"
| "truthy (JObj kvs) = True"

definition js_or :: "jsval \<Rightarrow> jsval \<Rightarrow> jsval" where
  \<comment> \<open>\<open>a || b\<close>\<close>
  "js_or a b = (if truthy a then a else b)"

definition nullish :: "jsval \<Rightarrow> bool" where
  "nullish v = (v = Undefined \<or> v = Null)"

definition utf16Length :: "string \<Rightarrow> nat" where
  \<comment> \<open>\<open>s.length\<close>: one code unit for each code point of up to three bytes, two for
      each of four bytes; continuation bytes count nothing\<close>
  "utf16Length s =
     sum_list (map (\<lambda>c. if (of_char c :: nat) < 128 then 1
                         else if (of_char c :: nat) < 192 then 0
                         else if (of_char c :: nat) < 240 then 1 else 2) s)"

fun readProp :: "jsval \<Rightarrow> string \<Rightarrow> jsval" where
  \<comment> \<open>\<open>v.k\<close> on a value that is neither null nor undefined; of the built-in
      properties only \<open>length\<close> is among the names the source reads\<close>
  "readProp (JObj kvs) k = (case map_of (rev kvs) k of None \<Rightarrow> Undefined | Some v \<Rightarrow> v)"
| "readProp (JArr xs) k = (if k = ''length'' then JNum (of_nat (length xs)) else Undefined)"
| "readProp (JStr s) k = (if k = ''length'' then JNum (of_nat (utf16Length s)) else Undefined)"
| "readProp v k = Undefined"

definition getprop :: "jsval \<Rightarrow> string \<Rightarrow> js_error + jsval" where
  \<comment> \<open>\<open>v.k\<close>: a TypeError on null and undefined (message worded as V8 does)\<close>
  "getprop v k =
     (if nullish v
      then Inl (JsError (''Cannot read properties of ''
                  @ (if v = Null then ''null'' else ''undefined'')
                  @ '' (reading '' @ [CHR 0x27] @ k @ [CHR 0x27] @ '')''))
      else Inr (readProp v k))"

definition optchain :: "jsval \<Rightarrow> string \<Rightarrow> jsval" where
  \<comment> \<open>\<open>v?.k\<close>\<close>
  "optchain v k = (if nullish v then Undefined else readProp v k)"

fun startsWith :: "string \<Rightarrow> string \<Rightarrow> bool" where
  "startsWith s [] = True"
| "startsWith [] (c # cs) = False"
| "startsWith (x # xs) (c # cs) = (x = c \<and> startsWith xs cs)"

fun includes_str :: "string \<Rightarrow> string \<Rightarrow> bool" where
  \<comment> \<open>\<open>s.includes(n)\<close>\<close>
  "includes_str [] n = (n = [])"
| "includes_str (x # xs) n = (startsWith (x # xs) n \<or> includes_str xs n)"

text \<open>
  The white space of \<open>String.prototype.trim\<close>: U+0009 to U+000D, U+0020, U+00A0,
  U+1680, U+2000 to U+200A, U+2028, U+2029, U+202F, U+205F, U+3000 and U+FEFF, each as
  its UTF-8 bytes.
\<close>

definition whiteSpace :: "string list" where
  "whiteSpace =
     [[CHR 0x09], [CHR 0x0A], [CHR 0x0B], [CHR 0x0C], [CHR 0x0D], [CHR 0x20],
      [CHR 0xC2, CHR 0xA0],
      [CHR 0xE1, CHR 0x9A, CHR 0x80],
      [CHR 0xE2, CHR 0x80, CHR 0x80], [CHR 0xE2, CHR 0x80, CHR 0x81],
      [CHR 0xE2, CHR 0x80, CHR 0x82], [CHR 0xE2, CHR 0x80, CHR 0x83],
      [CHR 0xE2, CHR 0x80, CHR 0x84], [CHR 0xE2, CHR 0x80, CHR 0x85],
      [CHR 0xE2, CHR 0x80, CHR 0x86], [CHR 0xE2, CHR 0x80, CHR 0x87],
      [CHR 0xE2, CHR 0x80, CHR 0x88], [CHR 0xE2, CHR 0x80, CHR 0x89],
      [CHR 0xE2, CHR 0x80, CHR 0x8A],
      [CHR 0xE2, CHR 0x80, CHR 0xA8], [CHR 0xE2, CHR 0x80, CHR 0xA9],
      [CHR 0xE2, CHR 0x80, CHR 0xAF],
      [CHR 0xE2, CHR 0x81, CHR 0x9F],
      [CHR 0xE3, CHR 0x80, CHR 0x80],
      [CHR 0xEF, CHR 0xBB, CHR 0xBF]]"

definition matchLength :: "string list \<Rightarrow> string \<Rightarrow> nat" where
  \<comment> \<open>the length of the pattern that \<open>s\<close> starts with, 0 when it starts with none\<close>
  "matchLength pats s = (case find (startsWith s) pats of None \<Rightarrow> 0 | Some w \<Rightarrow> length w)"

function stripLeading :: "string list \<Rightarrow> string \<Rightarrow> string" where
  "stripLeading pats s =
     (if matchLength pats s = 0 then s
      else stripLeading pats (drop (matchLength pats s) s))"
  by pat_completeness auto
termination
proof (relation "measure (\<lambda>(pats, s). length s)")
  show "wf (measure (\<lambda>(pats, s). length s))"
    by simp
next
  fix pats :: "string list" and s :: string
  assume m: "matchLength pats s \<noteq> 0"
  have "s \<noteq> []"
  proof
    assume e: "s = []"
    from m obtain w where f: "find (startsWith s) pats = Some w" and l: "length w \<noteq> 0"
      by (auto simp: matchLength_def split: option.splits)
    from f have "startsWith s w"
      by (auto simp: find_Some_iff)
    with e l show False
      by (cases w) simp_all
  qed
  with m show "((pats, drop (matchLength pats s) s), (pats, s)) \<in> measure (\<lambda>(pats, s). length s)"
    by simp
qed

declare stripLeading.simps [simp del]

definition trim :: "string \<Rightarrow> string" where
  \<comment> \<open>the white space is stripped from the start, then, on the reversed text, from the end\<close>
  "trim s = rev (stripLeading (map rev whiteSpace) (rev (stripLeading whiteSpace s)))"

definition nl :: string where
  "nl = [CHR 0x0A]"

definition ae :: string where "ae = [CHR 0xC3, CHR 0xA4]"
definition oe :: string where "oe = [CHR 0xC3, CHR 0xB6]"
definition ue :: string where "ue = [CHR 0xC3, CHR 0xBC]"
definition Ue :: string where "Ue = [CHR 0xC3, CHR 0x9C]"

section \<open>The outcome of a fetch\<close>

record response =
  resp_ok :: bool
  resp_json :: "js_error + jsval"  \<comment> \<open>what \<open>await response.json()\<close> gives: \<open>Inl\<close> rejects\<close>

datatype fetch_result = Rejected js_error | Resolved response

record request =
  req_method :: string
  req_url :: string
  req_headers :: "(string \<times> string) list"
  req_body :: "jsval option"  \<comment> \<open>the object given to \<open>JSON.stringify\<close>; \<open>None\<close> is no body\<close>

section \<open>ChatInterface\<close>

text \<open>
  A template literal is kept as its pieces: the literal text, the interpolated values
  (JavaScript's conversion of a value to a string is not evaluated), the result of
  \<open>Array.prototype.join\<close> and the result of \<open>JSON.stringify\<close>.
\<close>

datatype piece = Lit string | Interp jsval | Joined "jsval list" string | Stringified jsval

record message =
  m_id :: rat
  m_type :: string
  m_content :: "piece list"
  m_timestamp :: int
  m_status :: string

text \<open>The readings of the clock that one run of \<open>handleSendMessage\<close> takes.\<close>

record clock =
  now_user :: int       \<comment> \<open>\<open>Date.now()\<close> of the user message\<close>
  date_user :: int      \<comment> \<open>\<open>new Date()\<close> of the user message\<close>
  now_setup :: int
  date_setup :: int
  iso_request :: string \<comment> \<open>\<open>new Date().toISOString()\<close> of the request data that is sent\<close>
  now_reply :: int      \<comment> \<open>\<open>Date.now()\<close> of the bot or error message\<close>
  date_reply :: int

text \<open>
  What a run does, in order: the state setters it calls (\<open>setMessages\<close> with its
  updater function) and the requests it issues.
\<close>

datatype effect =
    SetMessages "message list \<Rightarrow> message list"
  | SetInputValue string
  | SetIsLoading bool
  | Fetch request

record chat_state =
  messages :: "message list"
  inputValue :: string
  isLoading :: bool

definition initialMessages :: "int \<Rightarrow> message list" where
  "initialMessages t =
     [\<lparr>m_id = 1, m_type = ''system'',
       m_content = [Lit (''KI Self Sustain System initialisiert. Ich bin bereit f'' @ ue
                      @ ''r Ihre Anweisungen zur Selbstverbesserung und Systemkontrolle.'')],
       m_timestamp = t, m_status = ''success''\<rparr>]"

definition initialChat :: "int \<Rightarrow> chat_state" where
  "initialChat t = \<lparr>messages = initialMessages t, inputValue = [], isLoading = False\<rparr>"

definition jsonHeaders :: "(string \<times> string) list" where
  "jsonHeaders = [(''Content-Type'', ''application/json'')]"

definition setupRequest :: request where
  "setupRequest =
     \<lparr>req_method = ''POST'', req_url = ''http://localhost:5000/api/ai/check-and-setup'',
      req_headers = jsonHeaders, req_body = None\<rparr>"

definition userMessage :: "string \<Rightarrow> clock \<Rightarrow> message" where
  "userMessage inp clk =
     \<lparr>m_id = of_int (now_user clk), m_type = ''user'', m_content = [Lit inp],
      m_timestamp = date_user clk, m_status = ''sent''\<rparr>"

definition setupMessage :: "jsval \<Rightarrow> clock \<Rightarrow> message" where
  "setupMessage setupData clk =
     (let st = optchain (readProp setupData ''setup_result'') ''status'' in
      \<lparr>m_id = of_int (now_setup clk) + 1 / 2, m_type = ''system'',
       m_content = [Lit ''AI-System wird automatisch eingerichtet... Status: '',
                    Interp (js_or st (JStr ''In Bearbeitung''))],
       m_timestamp = date_setup clk,
       m_status = (if st = JStr ''success'' then ''success'' else ''warning'')\<rparr>)"

definition selectEndpoint :: "(string \<Rightarrow> string) \<Rightarrow> string \<Rightarrow> string" where
  "selectEndpoint toLowerCase inp =
     (if includes_str (toLowerCase inp) ''improve'' \<or> includes_str (toLowerCase inp) ''optimize''
      then ''/api/learning/autonomous-improvement''
      else if includes_str (toLowerCase inp) ''status'' \<or> includes_str (toLowerCase inp) ''health''
      then ''/api/ai/status''
      else if includes_str (toLowerCase inp) ''flowise'' \<or> includes_str (toLowerCase inp) ''workflow''
      then ''/api/flowise/chatflows''
      else ''/api/learning/llm-feedback'')"

definition selectRequestData :: "(string \<Rightarrow> string) \<Rightarrow> string \<Rightarrow> clock \<Rightarrow> jsval" where
  "selectRequestData toLowerCase inp clk =
     (if includes_str (toLowerCase inp) ''improve'' \<or> includes_str (toLowerCase inp) ''optimize''
      then JObj [(''trigger'', JStr ''user_request''), (''context'', JStr inp),
                 (''timestamp'', JStr (iso_request clk))]
      else if includes_str (toLowerCase inp) ''status'' \<or> includes_str (toLowerCase inp) ''health''
      then JObj []
      else if includes_str (toLowerCase inp) ''flowise'' \<or> includes_str (toLowerCase inp) ''workflow''
      then JObj []
      else JObj [(''message'', JStr inp), (''type'', JStr ''user_interaction''),
                 (''timestamp'', JStr (iso_request clk))])"

definition mainRequest :: "(string \<Rightarrow> string) \<Rightarrow> string \<Rightarrow> clock \<Rightarrow> request" where
  "mainRequest toLowerCase inp clk =
     (let endpoint = selectEndpoint toLowerCase inp;
          isGet = (includes_str endpoint ''status'' \<or> includes_str endpoint ''chatflows'') in
      \<lparr>req_method = (if isGet then ''GET'' else ''POST''),
       req_url = ''http://localhost:5000'' @ endpoint,
       req_headers = jsonHeaders,
       req_body = (if isGet then None else Some (selectRequestData toLowerCase inp clk))\<rparr>)"

definition joinCall :: "jsval \<Rightarrow> string \<Rightarrow> js_error + piece" where
  \<comment> \<open>\<open>data.components.join(sep)\<close> on a truthy value: only an array has \<open>join\<close>\<close>
  "joinCall v sep =
     (case v of JArr xs \<Rightarrow> Inr (Joined xs sep)
      | _ \<Rightarrow> Inl (JsError ''data.components.join is not a function''))"

definition includesCall :: "jsval \<Rightarrow> string \<Rightarrow> js_error + bool" where
  \<comment> \<open>\<open>data.message.includes(n)\<close> on a truthy value: strings and arrays have \<open>includes\<close>\<close>
  "includesCall v n =
     (case v of JStr s \<Rightarrow> Inr (includes_str s n)
      | JArr xs \<Rightarrow> Inr (JStr n \<in> set xs)
      | _ \<Rightarrow> Inl (JsError ''data.message.includes is not a function''))"

definition objectKeysLength :: "jsval \<Rightarrow> nat" where
  \<comment> \<open>\<open>Object.keys(v).length\<close> on a truthy value\<close>
  "objectKeysLength v =
     (case v of JObj kvs \<Rightarrow> length (remdups (map fst kvs))
      | JArr xs \<Rightarrow> length xs
      | JStr s \<Rightarrow> utf16Length s
      | _ \<Rightarrow> 0)"

definition statusContent :: "jsval \<Rightarrow> js_error + piece list" where
  "statusContent data =
     (case getprop data ''status'' of Inl e \<Rightarrow> Inl e
      | Inr st \<Rightarrow>
         (case (if truthy (readProp data ''components'')
                then joinCall (readProp data ''components'') '', ''
                else Inr (Lit ''Alle aktiv'')) of Inl e \<Rightarrow> Inl e
          | Inr comps \<Rightarrow>
             Inr [Lit ''Systemstatus: '', Interp (js_or st (JStr ''Aktiv'')),
                  Lit (nl @ ''Version: ''),
                  Interp (js_or (readProp data ''version'') (JStr ''Unbekannt'')),
                  Lit (nl @ ''Komponenten: ''), comps,
                  Lit (nl @ ''Letzte Aktivit'' @ ae @ ''t: ''),
                  Interp (js_or (readProp data ''timestamp'') (JStr ''Gerade eben''))]))"

definition chatflowsContent :: "jsval \<Rightarrow> js_error + piece list" where
  "chatflowsContent data =
     (case getprop data ''length'' of Inl e \<Rightarrow> Inl e
      | Inr len \<Rightarrow>
         Inr ([Lit ''Flowise Status: '']
              @ (if truthy len then [Interp len, Lit '' Chatflows gefunden'']
                 else [Lit (''Keine Chatflows verf'' @ ue @ ''gbar'')])
              @ [Lit nl]
              @ (if truthy len
                 then [Lit (''Chatflows k'' @ oe @ ''nnen '' @ ue
                         @ ''ber das Flowise-Panel verwaltet werden.'')]
                 else [Lit (''Erstellen Sie neue Chatflows '' @ ue
                         @ ''ber das Flowise-Interface.'')])))"

definition improvementContent :: "jsval \<Rightarrow> js_error + piece list" where
  "improvementContent data =
     (case getprop data ''status'' of Inl e \<Rightarrow> Inl e
      | Inr st \<Rightarrow>
         Inr ([Lit ''Selbstverbesserung '',
               Lit (if st = JStr ''success'' then ''erfolgreich'' else ''fehlgeschlagen''),
               Lit ('':'' @ nl)]
              @ (if st = JStr ''success''
                 then [Lit ''Version: '',
                       Interp (js_or (readProp data ''version'') (JStr ''Aktualisiert'')),
                       Lit (nl @ ''Verbesserungen: ''),
                       Interp (if truthy (readProp data ''improvement_plan'')
                               then JNum (of_nat (objectKeysLength (readProp data ''improvement_plan'')))
                               else JNum 0),
                       Lit '' Schritte'']
                 else [Lit ''Grund: '',
                       Interp (js_or (js_or (readProp data ''message'') (readProp data ''error''))
                                 (JStr ''Unbekannter Fehler''))])))"

definition feedbackContent :: "jsval \<Rightarrow> js_error + piece list" where
  "feedbackContent data =
     (case getprop data ''status'' of Inl e \<Rightarrow> Inl e
      | Inr st \<Rightarrow>
         Inr [Lit ''Feedback verarbeitet: '',
              Lit (if st = JStr ''success'' then ''Erfolgreich'' else ''Fehler''),
              Lit nl,
              Interp (js_or (js_or (readProp data ''message'')
                                   (optchain (readProp data ''analysis'') ''analysis''))
                        (JStr ''Verarbeitung abgeschlossen''))])"

definition failureContent :: "jsval \<Rightarrow> js_error + piece list" where
  "failureContent data =
     (case getprop data ''message'' of Inl e \<Rightarrow> Inl e
      | Inr msg \<Rightarrow>
         (case (if truthy msg
                then includesCall msg ''No valid chat completion endpoints found''
                else Inr False) of Inl e \<Rightarrow> Inl e
          | Inr specific \<Rightarrow>
             Inr (if specific
                  then [Lit (''KI-System nicht verf'' @ ue
                          @ ''gbar. Automatische Einrichtung wird versucht...'' @ nl
                          @ ''Fehler: ''),
                        Interp msg,
                        Lit (nl @ ''Bitte warten Sie einen Moment und versuchen Sie es erneut.'')]
                  else [Lit ''Fehler: '',
                        Interp (js_or (js_or (readProp data ''error'') msg)
                                  (JStr ''Unbekannter Fehler''))])))"

definition botContent :: "string \<Rightarrow> bool \<Rightarrow> jsval \<Rightarrow> js_error + piece list" where
  "botContent endpoint ok data =
     (if ok then
        (if includes_str endpoint ''status'' then statusContent data
         else if includes_str endpoint ''chatflows'' then chatflowsContent data
         else if includes_str endpoint ''autonomous-improvement'' then improvementContent data
         else feedbackContent data)
      else failureContent data)"

definition botResponse :: "bool \<Rightarrow> piece list \<Rightarrow> clock \<Rightarrow> message" where
  "botResponse ok content clk =
     \<lparr>m_id = of_int (now_reply clk) + 1, m_type = ''bot'', m_content = content,
      m_timestamp = date_reply clk, m_status = (if ok then ''success'' else ''error'')\<rparr>"

definition errorMessage :: "js_error \<Rightarrow> clock \<Rightarrow> message" where
  "errorMessage error clk =
     \<lparr>m_id = of_int (now_reply clk) + 1, m_type = ''bot'',
      m_content = [Lit ''Verbindungsfehler: '', Interp (JStr (err_message error)),
                   Lit (''. '' @ Ue @ ''berpr'' @ ue @ ''fen Sie, ob das Backend l'' @ ae
                        @ ''uft.'')],
      m_timestamp = date_reply clk, m_status = ''error''\<rparr>"

text \<open>
  The body of the \<open>try\<close>: the effects up to the point reached, and the error thrown
  there, if any.
\<close>

definition replyPart ::
  "(string \<Rightarrow> string) \<Rightarrow> string \<Rightarrow> fetch_result \<Rightarrow> clock \<Rightarrow> effect list \<times> js_error option" where
  "replyPart toLowerCase inp mainOutcome clk =
     (case mainOutcome of
        Rejected e \<Rightarrow> ([Fetch (mainRequest toLowerCase inp clk)], Some e)
      | Resolved resp \<Rightarrow>
         (case resp_json resp of
            Inl e \<Rightarrow> ([Fetch (mainRequest toLowerCase inp clk)], Some e)
          | Inr data \<Rightarrow>
             (case botContent (selectEndpoint toLowerCase inp) (resp_ok resp) data of
                Inl e \<Rightarrow> ([Fetch (mainRequest toLowerCase inp clk)], Some e)
              | Inr content \<Rightarrow>
                 ([Fetch (mainRequest toLowerCase inp clk),
                   SetMessages (\<lambda>prev. prev @ [botResponse (resp_ok resp) content clk])],
                  None))))"

definition tryPart ::
  "(string \<Rightarrow> string) \<Rightarrow> string \<Rightarrow> fetch_result \<Rightarrow> fetch_result \<Rightarrow> clock \<Rightarrow> effect list \<times> js_error option" where
  "tryPart toLowerCase inp setupOutcome mainOutcome clk =
     (case setupOutcome of
        Rejected e \<Rightarrow> ([Fetch setupRequest], Some e)
      | Resolved setupResponse \<Rightarrow>
         (case resp_json setupResponse of
            Inl e \<Rightarrow> ([Fetch setupRequest], Some e)
          | Inr setupData \<Rightarrow>
             (case getprop setupData ''status'' of
                Inl e \<Rightarrow> ([Fetch setupRequest], Some e)
              | Inr st \<Rightarrow>
                 (let announce =
                        (if st = JStr ''setup_attempted''
                         then [SetMessages (\<lambda>prev. prev @ [setupMessage setupData clk])]
                         else []);
                      rest = replyPart toLowerCase inp mainOutcome clk
                  in (Fetch setupRequest # announce @ fst rest, snd rest)))))"

definition handleSendMessage ::
  "(string \<Rightarrow> string) \<Rightarrow> string \<Rightarrow> bool \<Rightarrow> fetch_result \<Rightarrow> fetch_result \<Rightarrow> clock \<Rightarrow> effect list" where
  "handleSendMessage toLowerCase inp loading setupOutcome mainOutcome clk =
     (if trim inp = [] \<or> loading then []
      else
        [SetMessages (\<lambda>prev. prev @ [userMessage inp clk]), SetInputValue [], SetIsLoading True]
        @ fst (tryPart toLowerCase inp setupOutcome mainOutcome clk)
        @ (case snd (tryPart toLowerCase inp setupOutcome mainOutcome clk) of
             None \<Rightarrow> []
           | Some error \<Rightarrow> [SetMessages (\<lambda>prev. prev @ [errorMessage error clk])])
        @ [SetIsLoading False])"

fun applyEffect :: "chat_state \<Rightarrow> effect \<Rightarrow> chat_state" where
  "applyEffect s (SetMessages f) = s\<lparr>messages := f (messages s)\<rparr>"
| "applyEffect s (SetInputValue v) = s\<lparr>inputValue := v\<rparr>"
| "applyEffect s (SetIsLoading b) = s\<lparr>isLoading := b\<rparr>"
| "applyEffect s (Fetch r) = s"

definition fetches :: "effect list \<Rightarrow> request list" where
  "fetches es = concat (map (\<lambda>e. case e of Fetch r \<Rightarrow> [r] | _ \<Rightarrow> []) es)"

definition sendMessage ::
  "(string \<Rightarrow> string) \<Rightarrow> chat_state \<Rightarrow> fetch_result \<Rightarrow> fetch_result \<Rightarrow> clock \<Rightarrow> chat_state" where
  \<comment> \<open>the handler of the current render, run on the state it closes over\<close>
  "sendMessage toLowerCase s setupOutcome mainOutcome clk =
     foldl applyEffect s
       (handleSendMessage toLowerCase (inputValue s) (isLoading s) setupOutcome mainOutcome clk)"

definition thrown ::
  "(string \<Rightarrow> string) \<Rightarrow> string \<Rightarrow> fetch_result \<Rightarrow> fetch_result \<Rightarrow> clock \<Rightarrow> js_error option" where
  \<comment> \<open>the error that reaches the \<open>catch\<close> of a run that passed the guard\<close>
  "thrown toLowerCase inp setupOutcome mainOutcome clk = snd (tryPart toLowerCase inp setupOutcome mainOutcome clk)"

definition quickActions :: "(string \<times> string) list" where
  "quickActions =
     [(''System Status'', ''Zeige mir den aktuellen Systemstatus''),
      (''Selbstverbesserung'', ''Starte eine autonome Selbstverbesserung''),
      (''Flowise Status'', Ue @ ''berpr'' @ ue @ ''fe Flowise Workflows''),
      (''Lernfortschritt'', ''Zeige mir den aktuellen Lernfortschritt'')]"

text \<open>
  The operations of the component: a send (the button or the Enter key), typing into
  the input, and the quick-action buttons, one for each entry of \<open>quickActions\<close>.
\<close>

datatype chat_event =
    Send fetch_result fetch_result clock
  | Change string
  | QuickAction nat

fun eventEffects :: "(string \<Rightarrow> string) \<Rightarrow> chat_state \<Rightarrow> chat_event \<Rightarrow> effect list" where
  "eventEffects toLowerCase s (Send setupOutcome mainOutcome clk) =
     handleSendMessage toLowerCase (inputValue s) (isLoading s) setupOutcome mainOutcome clk"
| "eventEffects toLowerCase s (Change v) = [SetInputValue v]"
| "eventEffects toLowerCase s (QuickAction i) =
     (if i < length quickActions then [SetInputValue (snd (quickActions ! i))] else [])"

definition chatStep :: "(string \<Rightarrow> string) \<Rightarrow> chat_state \<Rightarrow> chat_event \<Rightarrow> chat_state" where
  "chatStep toLowerCase s ev = foldl applyEffect s (eventEffects toLowerCase s ev)"

section \<open>The start script\<close>

text \<open>
  The script runs under \<open>set -e\<close>: a command that exits with a status other than 0
  ends the script with that status. \<open>echo\<close> is taken to succeed. The environment is
  whether \<open>docker-compose.yaml\<close> is a regular file of the working directory and the
  exit status of each external command.
\<close>

datatype sh_cmd = Echo string | Exec string





fun run_errexit :: "(string \<Rightarrow> nat) \<Rightarrow> sh_cmd list \<Rightarrow> sh_cmd list \<times> nat" where
  "run_errexit status [] = ([], 0)"
| "run_errexit status (Echo line # rest) =
     (let r = run_errexit status rest in (Echo line # fst r, snd r))"
| "run_errexit status (Exec c # rest) =
     (if status c \<noteq> 0 then ([Exec c], status c)
      else (let r = run_errexit status rest in (Exec c # fst r, snd r)))"



definition executed :: "sh_cmd list \<Rightarrow> string list" where
  "executed tr = concat (map (\<lambda>c. case c of Exec x \<Rightarrow> [x] | Echo _ \<Rightarrow> []) tr)"


section \<open>SystemMonitor\<close>

text \<open>
  \<open>newData = { ...systemData }\<close> is a shallow copy: \<open>newData.services\<close> is the object
  \<open>systemData.services\<close>, and the assignments to its keys change that object in
  place. The services objects therefore live in a store, and a \<open>systemData\<close> holds the
  address of its services object. The other fields are replaced, never mutated.
\<close>

type_synonym services_store = "nat \<Rightarrow> (string \<rightharpoonup> jsval)"

datatype sample_rate = Times100 jsval | RandomRate rat

record perf_point =
  p_time :: string
  p_cpu :: rat
  p_memory :: rat
  p_learning_rate :: sample_rate  \<comment> \<open>\<open>success_rate * 100\<close> is kept unevaluated\<close>
  p_timestamp :: int

record systemData =
  sd_status :: jsval
  sd_metrics :: jsval
  sd_learning :: jsval
  sd_services :: nat
  sd_performance :: "perf_point list"

text \<open>What one run reads from the clock and from \<open>Math.random() * 100\<close>.\<close>

record poll_env =
  pe_time :: string
  pe_now :: int
  pe_cpu :: rat
  pe_memory :: rat
  pe_rate :: rat

definition fulfilledOk :: "fetch_result \<Rightarrow> bool" where
  \<comment> \<open>\<open>res.status === 'fulfilled' && res.value.ok\<close>\<close>
  "fulfilledOk res = (case res of Rejected _ \<Rightarrow> False | Resolved resp \<Rightarrow> resp_ok resp)"

definition settledJson :: "fetch_result \<Rightarrow> js_error + jsval" where
  \<comment> \<open>\<open>await res.value.json()\<close>, called only when \<open>fulfilledOk res\<close>\<close>
  "settledJson res =
     (case res of Rejected e \<Rightarrow> Inl e | Resolved resp \<Rightarrow> resp_json resp)"

definition setService :: "services_store \<Rightarrow> nat \<Rightarrow> string \<Rightarrow> jsval \<Rightarrow> services_store" where
  "setService h a k v = h(a := (h a)(k \<mapsto> v))"

definition processStatus ::
  "services_store \<Rightarrow> systemData \<Rightarrow> fetch_result \<Rightarrow> services_store \<times> (js_error + systemData)" where
  "processStatus h newData statusRes =
     (if fulfilledOk statusRes then
        (case settledJson statusRes of
           Inl e \<Rightarrow> (h, Inl e)
         | Inr statusData \<Rightarrow>
            (case getprop statusData ''status'' of
               Inl e \<Rightarrow> (h, Inl e)
             | Inr st \<Rightarrow>
                (setService h (sd_services newData) ''backend'' (JStr ''online''),
                 Inr (newData\<lparr>sd_status := js_or st (JStr ''active''),
                        sd_metrics := js_or (readProp statusData ''metrics'') (JObj [])\<rparr>))))
      else (setService h (sd_services newData) ''backend'' (JStr ''offline''), Inr newData))"

definition processLearning ::
  "services_store \<Rightarrow> systemData \<Rightarrow> fetch_result \<Rightarrow> services_store \<times> (js_error + systemData)" where
  "processLearning h newData learningRes =
     (if fulfilledOk learningRes then
        (case settledJson learningRes of
           Inl e \<Rightarrow> (h, Inl e)
         | Inr learningData \<Rightarrow>
            (case getprop learningData ''learning_insights'' of
               Inl e \<Rightarrow> (h, Inl e)
             | Inr insights \<Rightarrow>
                (setService h (sd_services newData) ''learning'' (JStr ''online''),
                 Inr (newData\<lparr>sd_learning := js_or insights (JObj [])\<rparr>))))
      else (setService h (sd_services newData) ''learning'' (JStr ''offline''), Inr newData))"

definition processFlowise ::
  "services_store \<Rightarrow> systemData \<Rightarrow> fetch_result \<Rightarrow> services_store \<times> (js_error + systemData)" where
  "processFlowise h newData flowiseRes =
     (if fulfilledOk flowiseRes then
        (case settledJson flowiseRes of
           Inl e \<Rightarrow> (h, Inl e)
         | Inr flowiseData \<Rightarrow>
            (case getprop flowiseData ''flowise_endpoint'' of
               Inl e \<Rightarrow> (setService h (sd_services newData) ''flowise'' (JStr ''online''), Inl e)
             | Inr endpoint \<Rightarrow>
                (setService (setService h (sd_services newData) ''flowise'' (JStr ''online''))
                   (sd_services newData) ''flowise_endpoint'' endpoint,
                 Inr newData)))
      else (setService h (sd_services newData) ''flowise'' (JStr ''offline''), Inr newData))"

definition slice_last :: "nat \<Rightarrow> 'a list \<Rightarrow> 'a list" where
  \<comment> \<open>\<open>xs.slice(-n)\<close> for \<open>n > 0\<close>\<close>
  "slice_last n xs = drop (length xs - n) xs"

definition newPerformancePoint :: "systemData \<Rightarrow> poll_env \<Rightarrow> js_error + perf_point" where
  "newPerformancePoint newData env =
     (case getprop (sd_learning newData) ''success_rate'' of
        Inl e \<Rightarrow> Inl e
      | Inr rate \<Rightarrow>
         Inr \<lparr>p_time = pe_time env, p_cpu = pe_cpu env, p_memory = pe_memory env,
              p_learning_rate = (if truthy rate then Times100 rate else RandomRate (pe_rate env)),
              p_timestamp = pe_now env\<rparr>)"

text \<open>
  The body of the \<open>try\<close> of \<open>fetchSystemData\<close>, given the \<open>systemData\<close> that the
  function closes over and the three settled results: the store as the run leaves it,
  and either the error thrown or the \<open>newData\<close> handed to \<open>setSystemData\<close>.
\<close>

definition fetchSystemData ::
  "services_store \<Rightarrow> systemData \<Rightarrow> fetch_result \<Rightarrow> fetch_result \<Rightarrow> fetch_result \<Rightarrow> poll_env
     \<Rightarrow> services_store \<times> (js_error + systemData)" where
  "fetchSystemData h systemData statusRes learningRes flowiseRes env =
     (case processStatus h systemData statusRes of
        (h1, Inl e) \<Rightarrow> (h1, Inl e)
      | (h1, Inr nd1) \<Rightarrow>
         (case processLearning h1 nd1 learningRes of
            (h2, Inl e) \<Rightarrow> (h2, Inl e)
          | (h2, Inr nd2) \<Rightarrow>
             (case processFlowise h2 nd2 flowiseRes of
                (h3, Inl e) \<Rightarrow> (h3, Inl e)
              | (h3, Inr nd3) \<Rightarrow>
                 (case newPerformancePoint nd3 env of
                    Inl e \<Rightarrow> (h3, Inl e)
                  | Inr point \<Rightarrow>
                     (h3, Inr (nd3\<lparr>sd_performance :=
                                  slice_last 20 (sd_performance systemData @ [point])\<rparr>))))))"

text \<open>
  The mounted component. \<open>mon_state\<close> is the React state. \<open>mon_captured\<close> is the
  \<open>systemData\<close> of the first render: the effect has an empty dependency list, so the
  function it calls at mount and hands to \<open>setInterval\<close> is the one of the first
  render, which closes over that value for as long as the component is mounted. The
  refresh button calls the function of the current render, which closes over the
  current state. A run is taken as one step.
\<close>

record monitor =
  mon_store :: services_store
  mon_next :: nat           \<comment> \<open>the next free address\<close>
  mon_state :: systemData
  mon_captured :: systemData
  mon_lastUpdate :: int
  mon_console :: "js_error list"

definition initialSystemData :: systemData where
  "initialSystemData =
     \<lparr>sd_status = JStr ''loading'', sd_metrics = JObj [], sd_learning = JObj [],
      sd_services = 0, sd_performance = []\<rparr>"

definition initialMonitor :: "int \<Rightarrow> monitor" where
  "initialMonitor t =
     \<lparr>mon_store = (\<lambda>a. Map.empty), mon_next = 1, mon_state = initialSystemData,
      mon_captured = initialSystemData, mon_lastUpdate = t, mon_console = []\<rparr>"

definition allOffline :: "string \<rightharpoonup> jsval" where
  "allOffline =
     [''backend'' \<mapsto> JStr ''offline'', ''learning'' \<mapsto> JStr ''offline'',
      ''flowise'' \<mapsto> JStr ''offline'']"

definition runFetchSystemData ::
  "monitor \<Rightarrow> systemData \<Rightarrow> fetch_result \<Rightarrow> fetch_result \<Rightarrow> fetch_result \<Rightarrow> poll_env \<Rightarrow> monitor" where
  "runFetchSystemData m closure statusRes learningRes flowiseRes env =
     (case fetchSystemData (mon_store m) closure statusRes learningRes flowiseRes env of
        (h, Inr newData) \<Rightarrow>
          m\<lparr>mon_store := h, mon_state := newData, mon_lastUpdate := pe_now env\<rparr>
      | (h, Inl error) \<Rightarrow>
          m\<lparr>mon_store := h(mon_next m := allOffline),
            mon_next := Suc (mon_next m),
            mon_state := (mon_state m)\<lparr>sd_status := JStr ''error'', sd_services := mon_next m\<rparr>,
            mon_console := mon_console m @ [error]\<rparr>)"

datatype monitor_event =
    Tick fetch_result fetch_result fetch_result poll_env
  | Refresh fetch_result fetch_result fetch_result poll_env

text \<open>
  \<open>Tick\<close> is the call at mount and each call by the interval; \<open>Refresh\<close> is a click
  on the refresh button.
\<close>

fun monitorStep :: "monitor \<Rightarrow> monitor_event \<Rightarrow> monitor" where
  "monitorStep m (Tick a b c env) = runFetchSystemData m (mon_captured m) a b c env"
| "monitorStep m (Refresh a b c env) = runFetchSystemData m (mon_state m) a b c env"

inductive reachable :: "monitor \<Rightarrow> bool" where
  mounted: "reachable (initialMonitor t)"
| step: "reachable m \<Longrightarrow> reachable (monitorStep m ev)"

definition serviceOf :: "monitor \<Rightarrow> string \<Rightarrow> jsval" where
  \<comment> \<open>\<open>systemData.services.k\<close>\<close>
  "serviceOf m k =
     (case mon_store m (sd_services (mon_state m)) k of None \<Rightarrow> Undefined | Some v \<Rightarrow> v)"

definition serviceBadges :: "monitor \<Rightarrow> (string \<times> jsval) list" where
  \<comment> \<open>the four \<open>ServiceStatus\<close> rows: name and the status its badge shows\<close>
  "serviceBadges m =
     [(''Backend API'', js_or (serviceOf m ''backend'') (JStr ''offline'')),
      (''Lern-Engine'', js_or (serviceOf m ''learning'') (JStr ''offline'')),
      (''Flowise'', js_or (serviceOf m ''flowise'') (JStr ''offline'')),
      (''LLM Service'', JStr ''checking'')]"

definition svc_ok :: "services_store \<Rightarrow> bool" where
  \<comment> \<open>the invariant of the store: the three polled keys hold nothing, online or offline\<close>
  "svc_ok h = (\<forall>a. \<forall>k \<in> {''backend'', ''learning'', ''flowise''}.
                 h a k \<in> {None, Some (JStr ''online''), Some (JStr ''offline'')})"

section \<open>Interval timers and the mount effects\<close>

text \<open>
  The browser's table of active intervals, with time in milliseconds. \<open>setInterval\<close>
  gives a fresh id and records the callback, the period and the time of the call;
  \<open>clearInterval\<close> drops the timer of that id. An active interval is due at each whole
  number of periods after its start.
\<close>

datatype callback = CallFetchSystemData | CallFetchFlowiseData

record interval_timer =
  t_id :: nat
  t_callback :: callback
  t_period :: nat
  t_start :: nat

definition freshId :: "interval_timer list \<Rightarrow> nat" where
  "freshId ts = Suc (foldr max (map t_id ts) 0)"

definition setInterval ::
  "callback \<Rightarrow> nat \<Rightarrow> nat \<Rightarrow> interval_timer list \<Rightarrow> nat \<times> interval_timer list" where
  "setInterval cb period now ts =
     (freshId ts,
      ts @ [\<lparr>t_id = freshId ts, t_callback = cb, t_period = period, t_start = now\<rparr>])"

definition clearInterval :: "nat \<Rightarrow> interval_timer list \<Rightarrow> interval_timer list" where
  "clearInterval i ts = filter (\<lambda>t. t_id t \<noteq> i) ts"

definition fires :: "interval_timer \<Rightarrow> nat \<Rightarrow> bool" where
  "fires t now = (t_start t < now \<and> (now - t_start t) mod t_period t = 0)"

definition due :: "interval_timer list \<Rightarrow> nat \<Rightarrow> callback list" where
  "due ts now = map t_callback (filter (\<lambda>t. fires t now) ts)"

text \<open>
  The effect of each polling component, run once at mount (empty dependency list): it
  calls the fetch, starts the interval and returns the cleanup, which holds the id.
\<close>

record mount_result =
  mr_called :: "callback list"   \<comment> \<open>called during the effect itself\<close>
  mr_interval :: nat             \<comment> \<open>the \<open>interval\<close> that the cleanup closes over\<close>
  mr_timers :: "interval_timer list"

definition systemMonitorEffect :: "nat \<Rightarrow> interval_timer list \<Rightarrow> mount_result" where
  "systemMonitorEffect now ts =
     (let r = setInterval CallFetchSystemData 5000 now ts
      in \<lparr>mr_called = [CallFetchSystemData], mr_interval = fst r, mr_timers = snd r\<rparr>)"

definition flowiseManagerEffect :: "nat \<Rightarrow> interval_timer list \<Rightarrow> mount_result" where
  "flowiseManagerEffect now ts =
     (let r = setInterval CallFetchFlowiseData 30000 now ts
      in \<lparr>mr_called = [CallFetchFlowiseData], mr_interval = fst r, mr_timers = snd r\<rparr>)"

definition cleanup :: "mount_result \<Rightarrow> interval_timer list \<Rightarrow> interval_timer list" where
  \<comment> \<open>\<open>() => clearInterval(interval)\<close>, run at unmount on the table as it then is\<close>
  "cleanup r ts = clearInterval (mr_interval r) ts"

section \<open>FlowiseManager\<close>

text \<open>
  A handler is the list of what it does, in order. An updater given to a setter is run by
  React when it applies the update, outside the handler's \<open>try\<close>: it is kept as a
  function that may throw. \<open>Refetch\<close> in a handler is the call
  \<open>fetchFlowiseData()\<close>, which is not awaited.
\<close>

datatype fm_effect =
    FmFetch request
  | FmAlert "piece list"
  | FmConsole string js_error
  | SetLoading bool
  | SetFlowiseConfig "jsval \<Rightarrow> js_error + jsval"
  | SetChatflows jsval
  | SetNewChatflow jsval
  | SetTestResults "jsval \<Rightarrow> js_error + jsval"
  | Refetch

definition getRequest :: "string \<Rightarrow> request" where
  \<comment> \<open>\<open>fetch(url)\<close>\<close>
  "getRequest url = \<lparr>req_method = ''GET'', req_url = url, req_headers = [], req_body = None\<rparr>"

definition postRequest :: "string \<Rightarrow> request" where
  \<comment> \<open>\<open>fetch(url, { method: 'POST' })\<close>\<close>
  "postRequest url = \<lparr>req_method = ''POST'', req_url = url, req_headers = [], req_body = None\<rparr>"

definition ownEntries :: "jsval \<Rightarrow> (string \<times> jsval) list" where
  \<comment> \<open>what \<open>{ ...v }\<close> copies from an object; the indexed entries that a spread
      copies from an array or a string are left out\<close>
  "ownEntries v = (case v of JObj kvs \<Rightarrow> kvs | _ \<Rightarrow> [])"

definition spreadWith :: "jsval \<Rightarrow> (string \<times> jsval) list \<Rightarrow> jsval" where
  \<comment> \<open>\<open>{ ...prev, k1: v1, ... }\<close>\<close>
  "spreadWith prev kvs = JObj (ownEntries prev @ kvs)"

definition then_stage ::
  "fm_effect list \<times> js_error option \<Rightarrow> fm_effect list \<times> js_error option
     \<Rightarrow> fm_effect list \<times> js_error option" where
  \<comment> \<open>one part of a \<open>try\<close> after another: the second runs unless the first threw\<close>
  "then_stage a b = (case snd a of Some e \<Rightarrow> a | None \<Rightarrow> (fst a @ fst b, snd b))"

definition configRequest :: request where
  "configRequest = getRequest ''http://localhost:5000/api/flowise/config''"

definition chatflowsRequest :: request where
  "chatflowsRequest = getRequest ''http://localhost:5000/api/flowise/chatflows''"

definition testConnectionRequest :: request where
  "testConnectionRequest = postRequest ''http://localhost:5000/api/flowise/test-connection''"

definition configStage :: "fetch_result \<Rightarrow> fm_effect list \<times> js_error option" where
  "configStage configOutcome =
     (case configOutcome of
        Rejected e \<Rightarrow> ([FmFetch configRequest], Some e)
      | Resolved configRes \<Rightarrow>
         (if resp_ok configRes then
            (case resp_json configRes of
               Inl e \<Rightarrow> ([FmFetch configRequest], Some e)
             | Inr configData \<Rightarrow>
                ([FmFetch configRequest, SetFlowiseConfig (\<lambda>prev. Inr configData)], None))
          else ([FmFetch configRequest], None)))"

definition chatflowsStage :: "fetch_result \<Rightarrow> fm_effect list \<times> js_error option" where
  "chatflowsStage chatflowsOutcome =
     (case chatflowsOutcome of
        Rejected e \<Rightarrow> ([FmFetch chatflowsRequest], Some e)
      | Resolved chatflowsRes \<Rightarrow>
         (if resp_ok chatflowsRes then
            (case resp_json chatflowsRes of
               Inl e \<Rightarrow> ([FmFetch chatflowsRequest], Some e)
             | Inr chatflowsData \<Rightarrow>
                (case getprop chatflowsData ''data'' of
                   Inl e \<Rightarrow> ([FmFetch chatflowsRequest], Some e)
                 | Inr d \<Rightarrow>
                    ([FmFetch chatflowsRequest, SetChatflows (js_or d (JArr []))], None)))
          else ([FmFetch chatflowsRequest, SetChatflows (JArr [])], None)))"

definition onlineIfSuccess :: "jsval \<Rightarrow> jsval" where
  "onlineIfSuccess v = JStr (if v = JStr ''success'' then ''online'' else ''offline'')"

definition connectionUpdater :: "jsval \<Rightarrow> jsval \<Rightarrow> js_error + jsval" where
  \<comment> \<open>\<open>prev => ({ ...prev, status: ..., llm_status: ... })\<close> for a parsed \<open>testData\<close>\<close>
  "connectionUpdater testData prev =
     (case getprop testData ''flowise'' of Inl e \<Rightarrow> Inl e
      | Inr fl \<Rightarrow>
         (case getprop fl ''status'' of Inl e \<Rightarrow> Inl e
          | Inr fs \<Rightarrow>
             (case getprop (readProp testData ''llm'') ''status'' of Inl e \<Rightarrow> Inl e
              | Inr ls \<Rightarrow>
                 Inr (spreadWith prev [(''status'', onlineIfSuccess fs),
                                       (''llm_status'', onlineIfSuccess ls)]))))"

definition testStage :: "fetch_result \<Rightarrow> fm_effect list \<times> js_error option" where
  "testStage testOutcome =
     (case testOutcome of
        Rejected e \<Rightarrow> ([FmFetch testConnectionRequest], Some e)
      | Resolved testRes \<Rightarrow>
         (if resp_ok testRes then
            (case resp_json testRes of
               Inl e \<Rightarrow> ([FmFetch testConnectionRequest], Some e)
             | Inr testData \<Rightarrow>
                ([FmFetch testConnectionRequest, SetFlowiseConfig (connectionUpdater testData)],
                 None))
          else ([FmFetch testConnectionRequest], None)))"

definition fetchFlowiseData ::
  "fetch_result \<Rightarrow> fetch_result \<Rightarrow> fetch_result \<Rightarrow> fm_effect list" where
  "fetchFlowiseData configOutcome chatflowsOutcome testOutcome =
     (let tried = then_stage (configStage configOutcome)
                    (then_stage (chatflowsStage chatflowsOutcome) (testStage testOutcome))
      in [SetLoading True] @ fst tried
         @ (case snd tried of
              None \<Rightarrow> []
            | Some error \<Rightarrow>
               [FmConsole ''Failed to fetch Flowise data:'' error,
                SetFlowiseConfig (\<lambda>prev. Inr (spreadWith prev [(''status'', JStr ''offline'')]))])
         @ [SetLoading False])"

record newChatflow =
  nc_name :: string
  nc_description :: string
  nc_type :: string











section \<open>The operations of the dashboard and what they let out\<close>













definition serverError :: fetch_result where
  "serverError =
     Resolved \<lparr>resp_ok = False, resp_json = Inr (JObj [(''error'', JStr ''failed'')])\<rparr>"

text \<open>
  The \<open>flowiseConfig\<close> state of FlowiseManager under the effects of a handler. An updater
  that throws does so while React renders, and the component is lost: \<open>Inl\<close>.
\<close>

definition initialFlowiseConfig :: jsval where
  "initialFlowiseConfig =
     JObj [(''flowise_endpoint'', JStr ''http://localhost:3000''),
           (''llm_endpoint'', JStr ''http://localhost:11434''),
           (''status'', JStr ''checking'')]"

fun applyConfig :: "js_error + jsval \<Rightarrow> fm_effect \<Rightarrow> js_error + jsval" where
  "applyConfig (Inr config) (SetFlowiseConfig f) = f config"
| "applyConfig st e = st"

definition configAfter :: "jsval \<Rightarrow> fm_effect list \<Rightarrow> js_error + jsval" where
  "configAfter config es = foldl applyConfig (Inr config) es"

definition flowiseStatusBadge :: "jsval \<Rightarrow> js_error + jsval" where
  \<comment> \<open>\<open>{flowiseConfig.status}\<close> in the Flowise-Status card\<close>
  "flowiseStatusBadge config = getprop config ''status''"

section \<open>Concrete inputs\<close>

text \<open>
  A lower-casing for the concrete inputs below: it folds the letters A to Z and U+212A
  KELVIN SIGN, as \<open>String.prototype.toLowerCase\<close> does, and leaves the rest.
\<close>

definition isUpper :: "char \<Rightarrow> bool" where
  "isUpper c = (65 \<le> (of_char c :: nat) \<and> (of_char c :: nat) \<le> 90)"

definition lowerChar :: "char \<Rightarrow> char" where
  "lowerChar c = (if isUpper c then char_of ((of_char c :: nat) + 32) else c)"

definition kelvin :: string where
  "kelvin = [CHR 0xE2, CHR 0x84, CHR 0xAA]"

fun sampleLower :: "string \<Rightarrow> string" where
  "sampleLower (a # b # c # cs) =
     (if [a, b, c] = kelvin then CHR ''k'' # sampleLower cs
      else lowerChar a # sampleLower (b # c # cs))"
| "sampleLower (a # cs) = lowerChar a # sampleLower cs"
| "sampleLower [] = []"

declare sampleLower.simps [simp del]

definition nbsp :: string where
  "nbsp = [CHR 0xC2, CHR 0xA0]"

definition sampleClock :: clock where
  "sampleClock =
     \<lparr>now_user = 1000, date_user = 1000, now_setup = 1001, date_setup = 1001,
      iso_request = ''2024-01-01T00:00:00.000Z'', now_reply = 1002, date_reply = 1002\<rparr>"




definition networkDown :: fetch_result where
  "networkDown = Rejected (JsError ''Failed to fetch'')"

definition backendUp :: fetch_result where
  "backendUp = Resolved \<lparr>resp_ok = True, resp_json = Inr (JObj [(''status'', JStr ''active'')])\<rparr>"

definition firstPoll :: poll_env where
  "firstPoll = \<lparr>pe_time = ''10:00:00'', pe_now = 0, pe_cpu = 10, pe_memory = 20, pe_rate = 30\<rparr>"

definition secondPoll :: poll_env where
  "secondPoll = \<lparr>pe_time = ''10:00:05'', pe_now = 5000, pe_cpu = 40, pe_memory = 50, pe_rate = 60\<rparr>"

definition pointOf :: "poll_env \<Rightarrow> perf_point" where
  "pointOf env = \<lparr>p_time = pe_time env, p_cpu = pe_cpu env, p_memory = pe_memory env,
      p_learning_rate = RandomRate (pe_rate env), p_timestamp = pe_now env\<rparr>"

section \<open>Properties of ChatInterface\<close>

text \<open>
  C9. With an input that is empty or holds white space only (\<open>trim\<close> leaves nothing
  of it), or while a send is in flight, the handler returns at its guard: it calls no
  setter and issues no request, so messages, inputValue and isLoading are unchanged.
\<close>

theorem guard_blocks_send:
  "trim (inputValue s) = [] \<or> isLoading s \<Longrightarrow>
     handleSendMessage toLowerCase (inputValue s) (isLoading s) setupOutcome mainOutcome clk = []
     \<and> fetches (handleSendMessage toLowerCase (inputValue s) (isLoading s) setupOutcome mainOutcome clk) = []
     \<and> sendMessage toLowerCase s setupOutcome mainOutcome clk = s"
  by (auto simp: handleSendMessage_def sendMessage_def fetches_def)

theorem guard_blocks_send_witness:
  "trim (nbsp @ '' '' @ nl) = []
   \<and> sendMessage sampleLower \<lparr>messages = [], inputValue = nbsp @ '' '' @ nl, isLoading = False\<rparr>
        networkDown networkDown sampleClock
      = \<lparr>messages = [], inputValue = nbsp @ '' '' @ nl, isLoading = False\<rparr>
   \<and> fetches (handleSendMessage sampleLower ''hello'' True networkDown networkDown sampleClock) = []"
proof -
  have t: "trim (nbsp @ '' '' @ nl) = []"
    by code_simp
  have g: "trim (inputValue \<lparr>messages = [], inputValue = nbsp @ '' '' @ nl, isLoading = False\<rparr>) = []
     \<or> isLoading \<lparr>messages = [], inputValue = nbsp @ '' '' @ nl, isLoading = False\<rparr>"
    using t by simp
  have b: "trim (inputValue \<lparr>messages = [], inputValue = ''hello'', isLoading = True\<rparr>) = []
     \<or> isLoading \<lparr>messages = [], inputValue = ''hello'', isLoading = True\<rparr>"
    by simp
  from guard_blocks_send [OF g, of sampleLower networkDown networkDown sampleClock]
    guard_blocks_send [OF b, of sampleLower networkDown networkDown sampleClock] t
  show ?thesis by (simp add: fetches_def)
qed

lemma replyPart_cases:
  "(\<exists>e. replyPart toLowerCase inp mo clk = ([Fetch (mainRequest toLowerCase inp clk)], Some e))
   \<or> (\<exists>m. replyPart toLowerCase inp mo clk
              = ([Fetch (mainRequest toLowerCase inp clk), SetMessages (\<lambda>prev. prev @ [m])], None))"
  by (auto simp: replyPart_def split: fetch_result.splits sum.splits)

lemma tryPart_cases:
  "(\<exists>e. tryPart toLowerCase inp so mo clk = ([Fetch setupRequest], Some e))
   \<or> (\<exists>ann. tryPart toLowerCase inp so mo clk
                = (Fetch setupRequest # ann @ fst (replyPart toLowerCase inp mo clk),
                   snd (replyPart toLowerCase inp mo clk))
        \<and> (ann = [] \<or> (\<exists>m. ann = [SetMessages (\<lambda>prev. prev @ [m])] \<and> m_type m = ''system'')))"
  by (auto simp: tryPart_def Let_def setupMessage_def split: fetch_result.splits sum.splits)

lemma tryPart_thrown_shape:
  assumes "snd (tryPart toLowerCase inp so mo clk) = Some error"
  shows "\<exists>ann. (ann = [] \<or> (\<exists>m. ann = [SetMessages (\<lambda>prev. prev @ [m])] \<and> m_type m = ''system''))
     \<and> (fst (tryPart toLowerCase inp so mo clk) = Fetch setupRequest # ann
         \<or> fst (tryPart toLowerCase inp so mo clk) = Fetch setupRequest # ann @ [Fetch (mainRequest toLowerCase inp clk)])"
  using assms tryPart_cases [of toLowerCase inp so mo clk] replyPart_cases [of toLowerCase inp mo clk]
  by (elim disjE exE conjE) auto

text \<open>
  C3. When the body of the \<open>try\<close> in \<open>handleSendMessage\<close> throws (a rejected
  fetch, a rejected \<open>json()\<close> or a TypeError), the messages appended by the run hold
  exactly one message of type bot: the error message, whose status is error and whose
  content interpolates the error's message string; and isLoading ends false.
\<close>

theorem send_error_appends_error_message:
  assumes "trim (inputValue s) \<noteq> []" and "\<not> isLoading s"
    and "thrown toLowerCase (inputValue s) setupOutcome mainOutcome clk = Some error"
  shows "\<exists>appended.
           messages (sendMessage toLowerCase s setupOutcome mainOutcome clk) = messages s @ appended
         \<and> filter (\<lambda>m. m_type m = ''bot'') appended = [errorMessage error clk]
         \<and> m_status (errorMessage error clk) = ''error''
         \<and> Interp (JStr (err_message error)) \<in> set (m_content (errorMessage error clk))
         \<and> isLoading (sendMessage toLowerCase s setupOutcome mainOutcome clk) = False"
proof -
  from assms(3) have t: "snd (tryPart toLowerCase (inputValue s) setupOutcome mainOutcome clk) = Some error"
    by (simp add: thrown_def)
  from tryPart_thrown_shape [OF t] obtain ann where
    ann: "ann = [] \<or> (\<exists>m. ann = [SetMessages (\<lambda>prev. prev @ [m])] \<and> m_type m = ''system'')"
    and sh: "fst (tryPart toLowerCase (inputValue s) setupOutcome mainOutcome clk) = Fetch setupRequest # ann
         \<or> fst (tryPart toLowerCase (inputValue s) setupOutcome mainOutcome clk)
            = Fetch setupRequest # ann @ [Fetch (mainRequest toLowerCase (inputValue s) clk)]"
    by blast
  have ty: "m_type (userMessage (inputValue s) clk) = ''user''"
           "m_type (errorMessage error clk) = ''bot''"
    by (simp_all add: userMessage_def errorMessage_def)
  from ann sh assms(1,2) t ty show ?thesis
    by (elim disjE exE conjE)
       (simp_all add: sendMessage_def handleSendMessage_def, simp_all add: errorMessage_def)
qed

lemma foldl_appenders:
  "\<forall>f. SetMessages f \<in> set es \<longrightarrow> (\<exists>m. \<forall>prev. f prev = prev @ [m]) \<Longrightarrow>
     \<exists>new. messages (foldl applyEffect s es) = messages s @ new"
proof (induction es arbitrary: s)
  case Nil
  then show ?case by simp
next
  case (Cons e es)
  then have "\<exists>new. messages (foldl applyEffect (applyEffect s e) es)
                = messages (applyEffect s e) @ new"
    by simp
  moreover have "\<exists>one. messages (applyEffect s e) = messages s @ one"
  proof (cases e)
    case (SetMessages f)
    with Cons.prems obtain m where "\<forall>prev. f prev = prev @ [m]" by auto
    with SetMessages show ?thesis by simp
  qed simp_all
  ultimately show ?case by auto
qed

text \<open>
  C10. The message list is append-only: every updater that any operation of the
  component hands to \<open>setMessages\<close> appends exactly one message to the end of the
  list it is given, and after any operation the old list is a prefix of the new one.
\<close>

theorem messages_append_only:
  "(\<forall>f. SetMessages f \<in> set (eventEffects toLowerCase s ev) \<longrightarrow> (\<exists>m. \<forall>prev. f prev = prev @ [m]))
   \<and> (\<exists>new. messages (chatStep toLowerCase s ev) = messages s @ new)"
proof
  have upd: "\<forall>f. SetMessages f \<in> set (eventEffects toLowerCase s ev) \<longrightarrow> (\<exists>m. \<forall>prev. f prev = prev @ [m])"
  proof (cases ev)
    case (Send so mo clk)
    show ?thesis
      using tryPart_cases [of toLowerCase "inputValue s" so mo clk] replyPart_cases [of toLowerCase "inputValue s" mo clk]
      unfolding Send eventEffects.simps handleSendMessage_def
      by (elim disjE exE conjE) (auto split: option.splits)
  next
    case (Change v)
    then show ?thesis by simp
  next
    case (QuickAction i)
    then show ?thesis by simp
  qed
  then show "\<forall>f. SetMessages f \<in> set (eventEffects toLowerCase s ev) \<longrightarrow> (\<exists>m. \<forall>prev. f prev = prev @ [m])" .
  from upd show "\<exists>new. messages (chatStep toLowerCase s ev) = messages s @ new"
    unfolding chatStep_def by (rule foldl_appenders)
qed

lemma startsWith_iff: "startsWith s n \<longleftrightarrow> (\<exists>q. s = n @ q)"
  by (induction s n rule: startsWith.induct) auto

lemma includes_str_iff: "includes_str s n \<longleftrightarrow> (\<exists>p q. s = p @ n @ q)"
proof (induction s)
  case Nil
  then show ?case by auto
next
  case (Cons x xs)
  show ?case
  proof
    assume "includes_str (x # xs) n"
    then consider "startsWith (x # xs) n" | "includes_str xs n" by auto
    then show "\<exists>p q. x # xs = p @ n @ q"
    proof cases
      case 1
      then obtain q where "x # xs = n @ q" by (auto simp: startsWith_iff)
      then have "x # xs = [] @ n @ q" by simp
      then show ?thesis by blast
    next
      case 2
      with Cons.IH obtain p q where "xs = p @ n @ q" by blast
      then have "x # xs = (x # p) @ n @ q" by simp
      then show ?thesis by blast
    qed
  next
    assume "\<exists>p q. x # xs = p @ n @ q"
    then obtain p q where pq: "x # xs = p @ n @ q" by blast
    show "includes_str (x # xs) n"
    proof (cases p)
      case Nil
      with pq have "startsWith (x # xs) n" by (auto simp: startsWith_iff)
      then show ?thesis by simp
    next
      case (Cons y ys)
      with pq have "xs = ys @ n @ q" by simp
      with Cons.IH have "includes_str xs n" by blast
      then show ?thesis by simp
    qed
  qed
qed









theorem send_error_appends_error_message_witness:
  "thrown sampleLower ''hello'' networkDown networkDown sampleClock
     = Some (JsError ''Failed to fetch'')
   \<and> (\<exists>appended.
        messages (sendMessage sampleLower \<lparr>messages = [], inputValue = ''hello'', isLoading = False\<rparr>
          networkDown networkDown sampleClock)
          = [] @ appended
        \<and> filter (\<lambda>m. m_type m = ''bot'') appended
          = [errorMessage (JsError ''Failed to fetch'') sampleClock])"
proof -
  have h: "trim ''hello'' \<noteq> []"
    by code_simp
  then have g: "trim (inputValue \<lparr>messages = [], inputValue = ''hello'', isLoading = False\<rparr>) \<noteq> []"
    by simp
  have l: "\<not> isLoading \<lparr>messages = [], inputValue = ''hello'', isLoading = False\<rparr>"
    by simp
  have t: "thrown sampleLower (inputValue \<lparr>messages = [], inputValue = ''hello'', isLoading = False\<rparr>)
      networkDown networkDown sampleClock
     = Some (JsError ''Failed to fetch'')"
    by (simp add: thrown_def tryPart_def networkDown_def)
  from send_error_appends_error_message [OF g l t] t show ?thesis
    by auto
qed

theorem messages_append_only_witness:
  "SetMessages (\<lambda>prev. prev @ [userMessage ''hello'' sampleClock])
     \<in> set (eventEffects sampleLower \<lparr>messages = [], inputValue = ''hello'', isLoading = False\<rparr>
          (Send networkDown networkDown sampleClock))
   \<and> (\<exists>new. messages (chatStep sampleLower \<lparr>messages = [], inputValue = ''hello'', isLoading = False\<rparr>
          (Send networkDown networkDown sampleClock))
         = messages \<lparr>messages = [], inputValue = ''hello'', isLoading = False\<rparr> @ new)"
proof -
  have "trim ''hello'' \<noteq> []"
    by code_simp
  then show ?thesis
    using messages_append_only [of sampleLower
       "\<lparr>messages = [], inputValue = ''hello'', isLoading = False\<rparr>"
       "Send networkDown networkDown sampleClock"]
    by (simp add: handleSendMessage_def)
qed

section \<open>Properties of the start script and of SystemMonitor\<close>

lemma processStatus_ok:
  "processStatus h nd r = (h', Inr nd') \<Longrightarrow>
     sd_services nd' = sd_services nd
     \<and> h' = setService h (sd_services nd) ''backend''
              (JStr (if fulfilledOk r then ''online'' else ''offline''))"
  by (auto simp: processStatus_def split: if_splits sum.splits)

lemma processLearning_ok:
  "processLearning h nd r = (h', Inr nd') \<Longrightarrow>
     sd_services nd' = sd_services nd
     \<and> h' = setService h (sd_services nd) ''learning''
              (JStr (if fulfilledOk r then ''online'' else ''offline''))"
  by (auto simp: processLearning_def split: if_splits sum.splits)

lemma processFlowise_ok:
  "processFlowise h nd r = (h', Inr nd') \<Longrightarrow>
     nd' = nd
     \<and> h' (sd_services nd) ''flowise''
          = Some (JStr (if fulfilledOk r then ''online'' else ''offline''))
     \<and> h' (sd_services nd) ''backend'' = h (sd_services nd) ''backend''
     \<and> h' (sd_services nd) ''learning'' = h (sd_services nd) ''learning''"
  by (auto simp: processFlowise_def setService_def split: if_splits sum.splits)

lemma fetchSystemData_ok:
  assumes "fetchSystemData h sd a b c env = (h', Inr nd)"
  shows "sd_services nd = sd_services sd"
    and "h' (sd_services sd) ''backend''
           = Some (JStr (if fulfilledOk a then ''online'' else ''offline''))"
    and "h' (sd_services sd) ''learning''
           = Some (JStr (if fulfilledOk b then ''online'' else ''offline''))"
    and "h' (sd_services sd) ''flowise''
           = Some (JStr (if fulfilledOk c then ''online'' else ''offline''))"
    and "\<exists>point. sd_performance nd = slice_last 20 (sd_performance sd @ [point])
             \<and> p_timestamp point = pe_now env"
proof -
  from assms obtain h1 nd1 h2 nd2 nd3 point where
    s: "processStatus h sd a = (h1, Inr nd1)" and
    l: "processLearning h1 nd1 b = (h2, Inr nd2)" and
    f: "processFlowise h2 nd2 c = (h', Inr nd3)" and
    p: "newPerformancePoint nd3 env = Inr point" and
    n: "nd = nd3\<lparr>sd_performance := slice_last 20 (sd_performance sd @ [point])\<rparr>"
    by (auto simp: fetchSystemData_def split: prod.splits sum.splits)
  from p have t: "p_timestamp point = pe_now env"
    by (auto simp: newPerformancePoint_def split: sum.splits)
  note S = processStatus_ok [OF s] and L = processLearning_ok [OF l]
    and F = processFlowise_ok [OF f]
  from S L F n show "sd_services nd = sd_services sd" by simp
  from S L F have a2: "sd_services nd2 = sd_services sd" and a1: "sd_services nd1 = sd_services sd"
    by simp_all
  from F a2 have "h' (sd_services sd) ''backend'' = h2 (sd_services sd) ''backend''" by simp
  also from L a1 have "\<dots> = h1 (sd_services sd) ''backend''" by (simp add: setService_def)
  also from S have "\<dots> = Some (JStr (if fulfilledOk a then ''online'' else ''offline''))"
    by (simp add: setService_def)
  finally show "h' (sd_services sd) ''backend''
           = Some (JStr (if fulfilledOk a then ''online'' else ''offline''))" .
  from F a2 have "h' (sd_services sd) ''learning'' = h2 (sd_services sd) ''learning''" by simp
  also from L a1 have "\<dots> = Some (JStr (if fulfilledOk b then ''online'' else ''offline''))"
    by (simp add: setService_def)
  finally show "h' (sd_services sd) ''learning''
           = Some (JStr (if fulfilledOk b then ''online'' else ''offline''))" .
  from F a2 show "h' (sd_services sd) ''flowise''
           = Some (JStr (if fulfilledOk c then ''online'' else ''offline''))" by simp
  from F n t show "\<exists>point. sd_performance nd = slice_last 20 (sd_performance sd @ [point])
             \<and> p_timestamp point = pe_now env" by auto
qed

text \<open>
  C1. A run of \<open>fetchSystemData\<close> that does not reach the outer \<open>catch\<close> sets the
  state to \<open>newData\<close>, in which each of backend, learning and flowise is online if its own
  request settled fulfilled with an ok response, and offline otherwise, whatever the
  other two requests did.
\<close>

theorem services_marked_by_own_outcome:
  assumes "snd (fetchSystemData (mon_store m) closure statusRes learningRes flowiseRes env)
             = Inr newData"
  shows "mon_state (runFetchSystemData m closure statusRes learningRes flowiseRes env) = newData
       \<and> serviceOf (runFetchSystemData m closure statusRes learningRes flowiseRes env) ''backend''
           = JStr (if fulfilledOk statusRes then ''online'' else ''offline'')
       \<and> serviceOf (runFetchSystemData m closure statusRes learningRes flowiseRes env) ''learning''
           = JStr (if fulfilledOk learningRes then ''online'' else ''offline'')
       \<and> serviceOf (runFetchSystemData m closure statusRes learningRes flowiseRes env) ''flowise''
           = JStr (if fulfilledOk flowiseRes then ''online'' else ''offline'')"
proof -
  obtain h' where r: "fetchSystemData (mon_store m) closure statusRes learningRes flowiseRes env
                        = (h', Inr newData)"
    using assms by (cases "fetchSystemData (mon_store m) closure statusRes learningRes flowiseRes env") simp
  have st: "mon_state (runFetchSystemData m closure statusRes learningRes flowiseRes env) = newData"
    and sto: "mon_store (runFetchSystemData m closure statusRes learningRes flowiseRes env) = h'"
    by (simp_all add: runFetchSystemData_def r)
  show ?thesis
    unfolding serviceOf_def st sto fetchSystemData_ok(1) [OF r]
    by (simp add: fetchSystemData_ok(2,3,4) [OF r])
qed

lemma length_slice_last: "0 < n \<Longrightarrow> length (slice_last n xs) \<le> n"
  by (simp add: slice_last_def)

lemma reachable_captured: "reachable m \<Longrightarrow> mon_captured m = initialSystemData"
proof (induction rule: reachable.induct)
  case (mounted t)
  show ?case by (simp add: initialMonitor_def)
next
  case (step m ev)
  then show ?case
    by (cases ev) (auto simp: runFetchSystemData_def split: prod.splits sum.splits)
qed

lemma tick_resets_window:
  assumes "reachable m"
    and "snd (fetchSystemData (mon_store m) (mon_captured m) a b c env) = Inr newData"
  shows "length (sd_performance (mon_state (monitorStep m (Tick a b c env)))) = 1"
proof -
  obtain h' where r: "fetchSystemData (mon_store m) (mon_captured m) a b c env = (h', Inr newData)"
    using assms(2) by (cases "fetchSystemData (mon_store m) (mon_captured m) a b c env") simp
  from fetchSystemData_ok(5) [OF r] reachable_captured [OF assms(1)] r show ?thesis
    by (auto simp: runFetchSystemData_def initialSystemData_def slice_last_def)
qed

lemma refresh_extends_window:
  assumes "snd (fetchSystemData (mon_store m) (mon_state m) a b c env) = Inr newData"
  shows "\<exists>point. sd_performance (mon_state (monitorStep m (Refresh a b c env)))
                   = slice_last 20 (sd_performance (mon_state m) @ [point])
       \<and> length (sd_performance (mon_state (monitorStep m (Refresh a b c env)))) \<le> 20"
proof -
  obtain h' where r: "fetchSystemData (mon_store m) (mon_state m) a b c env = (h', Inr newData)"
    using assms by (cases "fetchSystemData (mon_store m) (mon_state m) a b c env") simp
  from fetchSystemData_ok(5) [OF r] obtain point where
    "sd_performance newData = slice_last 20 (sd_performance (mon_state m) @ [point])"
    by blast
  moreover have "mon_state (monitorStep m (Refresh a b c env)) = newData"
    by (simp add: runFetchSystemData_def r)
  ultimately show ?thesis
    using length_slice_last [of 20 "sd_performance (mon_state m) @ [point]"] by auto
qed

text \<open>
  C5. The window of one run is the last 20 of the performance array that the function
  closes over, followed by the new sample (\<open>fetchSystemData_ok\<close>). The runs started by
  the effect close over the first render's \<open>systemData\<close>, whose performance array is
  empty (\<open>reachable_captured\<close>): each such run leaves one sample
  (\<open>tick_resets_window\<close>), while a run started by the refresh button extends the
  current array (\<open>refresh_extends_window\<close>). After the call at mount and the first
  interval, with every service down, the state holds the second sample alone, not both.
\<close>

theorem interval_polls_do_not_accumulate:
  "sd_performance (mon_state (monitorStep (initialMonitor 0)
       (Tick networkDown networkDown networkDown firstPoll)))
     = [pointOf firstPoll]
   \<and> sd_performance (mon_state (monitorStep (monitorStep (initialMonitor 0)
       (Tick networkDown networkDown networkDown firstPoll))
       (Tick networkDown networkDown networkDown secondPoll)))
     = [pointOf secondPoll]"
  by (simp add: initialMonitor_def initialSystemData_def runFetchSystemData_def
      fetchSystemData_def processStatus_def processLearning_def processFlowise_def
      fulfilledOk_def networkDown_def newPerformancePoint_def getprop_def nullish_def
      slice_last_def pointOf_def)

lemma run_errexit_echo: "executed (fst (run_errexit st (Echo l # rest))) = executed (fst (run_errexit st rest))"
  by (simp add: executed_def Let_def)



lemma svc_ok_setService:
  "svc_ok h \<Longrightarrow> v \<in> {JStr ''online'', JStr ''offline''} \<or> k = ''flowise_endpoint'' \<Longrightarrow>
   svc_ok (setService h a k v)"
  unfolding svc_ok_def setService_def by auto

lemma svc_ok_processStatus: "svc_ok h \<Longrightarrow> svc_ok (fst (processStatus h nd r))"
  by (auto simp: processStatus_def svc_ok_setService split: sum.splits)

lemma svc_ok_processLearning: "svc_ok h \<Longrightarrow> svc_ok (fst (processLearning h nd r))"
  by (auto simp: processLearning_def svc_ok_setService split: sum.splits)

lemma svc_ok_processFlowise: "svc_ok h \<Longrightarrow> svc_ok (fst (processFlowise h nd r))"
  by (auto simp: processFlowise_def svc_ok_setService split: sum.splits)

lemma fst_fetchSystemData:
  "fst (fetchSystemData h sd a b c env)
     = (let h1 = fst (processStatus h sd a) in
        case snd (processStatus h sd a) of Inl e \<Rightarrow> h1
        | Inr nd1 \<Rightarrow>
           (let h2 = fst (processLearning h1 nd1 b) in
            case snd (processLearning h1 nd1 b) of Inl e \<Rightarrow> h2
            | Inr nd2 \<Rightarrow> fst (processFlowise h2 nd2 c)))"
  by (auto simp: fetchSystemData_def Let_def split: prod.splits sum.splits)

lemma svc_ok_fetchSystemData: "svc_ok h \<Longrightarrow> svc_ok (fst (fetchSystemData h sd a b c env))"
  by (auto simp: fst_fetchSystemData Let_def svc_ok_processStatus svc_ok_processLearning
        svc_ok_processFlowise split: sum.splits)

lemma svc_ok_allOffline: "svc_ok h \<Longrightarrow> svc_ok (h(a := allOffline))"
  unfolding svc_ok_def allOffline_def by auto

lemma svc_ok_run:
  "svc_ok (mon_store m) \<Longrightarrow> svc_ok (mon_store (runFetchSystemData m cl a b c env))"
  using svc_ok_fetchSystemData [of "mon_store m" cl a b c env]
  by (auto simp: runFetchSystemData_def svc_ok_allOffline split: prod.splits sum.splits)

lemma reachable_svc_ok: "reachable m \<Longrightarrow> svc_ok (mon_store m)"
proof (induction rule: reachable.induct)
  case (mounted t)
  show ?case by (simp add: initialMonitor_def svc_ok_def)
next
  case (step m ev)
  then show ?case by (cases ev) (simp_all add: svc_ok_run)
qed

lemma badge_value:
  assumes "svc_ok (mon_store m)" and "k \<in> {''backend'', ''learning'', ''flowise''}"
  shows "js_or (serviceOf m k) (JStr ''offline'') \<in> {JStr ''online'', JStr ''offline''}"
proof -
  from assms(1) have "\<forall>k \<in> {''backend'', ''learning'', ''flowise''}.
      mon_store m (sd_services (mon_state m)) k
        \<in> {None, Some (JStr ''online''), Some (JStr ''offline'')}"
    unfolding svc_ok_def by (rule spec)
  from this assms(2) have "mon_store m (sd_services (mon_state m)) k
                     \<in> {None, Some (JStr ''online''), Some (JStr ''offline'')}"
    by (rule bspec)
  then show ?thesis
    by (auto simp: serviceOf_def js_or_def)
qed

text \<open>
  C2, as amended. In every reachable state of SystemMonitor the badges of the three polled
  services show online or offline, and the badge of the LLM Service row shows the fixed
  text checking.
\<close>

theorem polled_badges_online_or_offline:
  "reachable m \<Longrightarrow>
     (\<forall>(name, shown) \<in> set (serviceBadges m).
        if name = ''LLM Service'' then shown = JStr ''checking''
        else shown \<in> {JStr ''online'', JStr ''offline''})"
  using badge_value [of m] reachable_svc_ok [of m]
  by (simp add: serviceBadges_def)

text \<open>
  C2, as stated, fails in the first render of SystemMonitor: the LLM Service badge shows
  checking, which is neither online nor offline.
\<close>

theorem llm_badge_counterexample:
  "(''LLM Service'', JStr ''checking'') \<in> set (serviceBadges (initialMonitor 0))
   \<and> JStr ''checking'' \<notin> {JStr ''online'', JStr ''offline''}"
  by (simp add: serviceBadges_def)

lemma firstRun:
  "fetchSystemData (mon_store (initialMonitor 0)) initialSystemData backendUp networkDown
       networkDown firstPoll
     = (((\<lambda>a. Map.empty)(0 := [''backend'' \<mapsto> JStr ''online'', ''learning'' \<mapsto> JStr ''offline'',
                ''flowise'' \<mapsto> JStr ''offline''])),
        Inr \<lparr>sd_status = JStr ''active'', sd_metrics = JObj [], sd_learning = JObj [],
          sd_services = 0, sd_performance = [pointOf firstPoll]\<rparr>)"
  by (simp add: initialMonitor_def initialSystemData_def
      fetchSystemData_def processStatus_def processLearning_def processFlowise_def
      fulfilledOk_def settledJson_def networkDown_def backendUp_def newPerformancePoint_def
      getprop_def nullish_def js_or_def setService_def
      slice_last_def pointOf_def)

theorem services_marked_by_own_outcome_witness:
  "snd (fetchSystemData (mon_store (initialMonitor 0)) initialSystemData backendUp networkDown
       networkDown firstPoll)
     = Inr \<lparr>sd_status = JStr ''active'', sd_metrics = JObj [], sd_learning = JObj [],
          sd_services = 0, sd_performance = [pointOf firstPoll]\<rparr>
   \<and> serviceOf (runFetchSystemData (initialMonitor 0) initialSystemData backendUp networkDown
         networkDown firstPoll) ''backend'' = JStr ''online''
   \<and> serviceOf (runFetchSystemData (initialMonitor 0) initialSystemData backendUp networkDown
         networkDown firstPoll) ''learning'' = JStr ''offline''
   \<and> serviceOf (runFetchSystemData (initialMonitor 0) initialSystemData backendUp networkDown
         networkDown firstPoll) ''flowise'' = JStr ''offline''"
proof -
  have r: "snd (fetchSystemData (mon_store (initialMonitor 0)) initialSystemData backendUp
              networkDown networkDown firstPoll)
     = Inr \<lparr>sd_status = JStr ''active'', sd_metrics = JObj [], sd_learning = JObj [],
          sd_services = 0, sd_performance = [pointOf firstPoll]\<rparr>"
    by (simp add: firstRun)
  have o: "fulfilledOk backendUp" "\<not> fulfilledOk networkDown"
    by (simp_all add: fulfilledOk_def backendUp_def networkDown_def)
  from services_marked_by_own_outcome [OF r] r o show ?thesis
    by simp
qed

theorem polled_badges_online_or_offline_witness:
  "reachable (monitorStep (initialMonitor 0) (Tick backendUp networkDown networkDown firstPoll))
   \<and> serviceBadges (monitorStep (initialMonitor 0)
        (Tick backendUp networkDown networkDown firstPoll))
      = [(''Backend API'', JStr ''online''), (''Lern-Engine'', JStr ''offline''),
         (''Flowise'', JStr ''offline''), (''LLM Service'', JStr ''checking'')]
   \<and> js_or (serviceOf (monitorStep (initialMonitor 0)
               (Tick backendUp networkDown networkDown firstPoll)) ''backend'') (JStr ''offline'')
        \<in> {JStr ''online'', JStr ''offline''}"
proof -
  have r: "reachable (monitorStep (initialMonitor 0)
             (Tick backendUp networkDown networkDown firstPoll))"
    by (rule reachable.step) (rule reachable.mounted)
  have c: "mon_captured (initialMonitor 0) = initialSystemData"
    by (simp add: initialMonitor_def)
  have b: "serviceBadges (monitorStep (initialMonitor 0)
        (Tick backendUp networkDown networkDown firstPoll))
      = [(''Backend API'', JStr ''online''), (''Lern-Engine'', JStr ''offline''),
         (''Flowise'', JStr ''offline''), (''LLM Service'', JStr ''checking'')]"
    by (simp add: serviceBadges_def serviceOf_def runFetchSystemData_def c firstRun js_or_def)
  have "js_or (serviceOf (monitorStep (initialMonitor 0)
               (Tick backendUp networkDown networkDown firstPoll)) ''backend'') (JStr ''offline'')
        \<in> {JStr ''online'', JStr ''offline''}"
    using polled_badges_online_or_offline [OF r]
    unfolding serviceBadges_def by simp
  with r b show ?thesis
    by blast
qed


section \<open>Properties of the timers\<close>

lemma id_below_fresh: "t \<in> set ts \<Longrightarrow> t_id t < freshId ts"
  unfolding freshId_def by (induction ts) auto

lemma clear_fresh: "clearInterval (freshId ts) ts = ts"
  unfolding clearInterval_def
  by (rule filter_True) (use id_below_fresh in fastforce)

lemma clear_after_set:
  "clearInterval (fst (setInterval cb p now ts)) (snd (setInterval cb p now ts)) = ts"
  using clear_fresh [of ts] by (simp add: setInterval_def clearInterval_def)

lemma due_after_set:
  "due (snd (setInterval cb p now ts)) t
     = due ts t @ (if now < t \<and> (t - now) mod p = 0 then [cb] else [])"
  by (simp add: setInterval_def due_def fires_def)

lemma polling_parts:
  "mr_called (systemMonitorEffect now ts) = [CallFetchSystemData]
   \<and> due (mr_timers (systemMonitorEffect now ts)) t
       = due ts t @ (if now < t \<and> (t - now) mod 5000 = 0 then [CallFetchSystemData] else [])
   \<and> cleanup (systemMonitorEffect now ts) (mr_timers (systemMonitorEffect now ts)) = ts
   \<and> mr_called (flowiseManagerEffect now ts) = [CallFetchFlowiseData]
   \<and> due (mr_timers (flowiseManagerEffect now ts)) t
       = due ts t @ (if now < t \<and> (t - now) mod 30000 = 0 then [CallFetchFlowiseData] else [])
   \<and> cleanup (flowiseManagerEffect now ts) (mr_timers (flowiseManagerEffect now ts)) = ts
   \<and> (\<forall>x \<in> set (cleanup (systemMonitorEffect now ts) table).
         t_id x \<noteq> mr_interval (systemMonitorEffect now ts))
   \<and> (\<forall>x \<in> set (cleanup (flowiseManagerEffect now ts) table).
         t_id x \<noteq> mr_interval (flowiseManagerEffect now ts))"
  using clear_after_set [of CallFetchSystemData 5000 now ts]
    clear_after_set [of CallFetchFlowiseData 30000 now ts]
  by (simp add: systemMonitorEffect_def flowiseManagerEffect_def cleanup_def Let_def
      due_after_set) (simp add: clearInterval_def)

lemma fresh_after_set: "freshId ts < freshId (snd (setInterval cb p now ts))"
  using id_below_fresh [of "\<lparr>t_id = freshId ts, t_callback = cb, t_period = p, t_start = now\<rparr>"
          "snd (setInterval cb p now ts)"]
  by (simp add: setInterval_def)

lemma both_mounted_each_clears_its_own:
  "cleanup (systemMonitorEffect now ts)
     (mr_timers (flowiseManagerEffect later (mr_timers (systemMonitorEffect now ts))))
     = ts @ [\<lparr>t_id = mr_interval (flowiseManagerEffect later (mr_timers (systemMonitorEffect now ts))),
              t_callback = CallFetchFlowiseData, t_period = 30000, t_start = later\<rparr>]"
  using clear_fresh [of ts] fresh_after_set [of ts CallFetchSystemData 5000 now]
  by (simp add: systemMonitorEffect_def flowiseManagerEffect_def cleanup_def Let_def
      setInterval_def clearInterval_def)

text \<open>
  C6. At mount each polling component calls its fetch once and starts one interval, of
  5000 ms for SystemMonitor and of 30000 ms for FlowiseManager: from then on its fetch
  is due at every whole number of periods after the mount, and at no other time on its
  account. Its cleanup clears that interval: run right after the mount it gives back the
  table as it was, run on any later table it leaves no timer with the component's id, and
  with FlowiseManager mounted after SystemMonitor the cleanup of SystemMonitor leaves
  FlowiseManager's interval in place.
\<close>

theorem polling_intervals:
  "cleanup (systemMonitorEffect now ts)
     (mr_timers (flowiseManagerEffect later (mr_timers (systemMonitorEffect now ts))))
     = ts @ [\<lparr>t_id = mr_interval (flowiseManagerEffect later (mr_timers (systemMonitorEffect now ts))),
              t_callback = CallFetchFlowiseData, t_period = 30000, t_start = later\<rparr>]
   \<and> mr_called (systemMonitorEffect now ts) = [CallFetchSystemData]
   \<and> due (mr_timers (systemMonitorEffect now ts)) t
       = due ts t @ (if now < t \<and> (t - now) mod 5000 = 0 then [CallFetchSystemData] else [])
   \<and> cleanup (systemMonitorEffect now ts) (mr_timers (systemMonitorEffect now ts)) = ts
   \<and> mr_called (flowiseManagerEffect now ts) = [CallFetchFlowiseData]
   \<and> due (mr_timers (flowiseManagerEffect now ts)) t
       = due ts t @ (if now < t \<and> (t - now) mod 30000 = 0 then [CallFetchFlowiseData] else [])
   \<and> cleanup (flowiseManagerEffect now ts) (mr_timers (flowiseManagerEffect now ts)) = ts
   \<and> (\<forall>x \<in> set (cleanup (systemMonitorEffect now ts) table).
         t_id x \<noteq> mr_interval (systemMonitorEffect now ts))
   \<and> (\<forall>x \<in> set (cleanup (flowiseManagerEffect now ts) table).
         t_id x \<noteq> mr_interval (flowiseManagerEffect now ts))"
  by (rule conjI [OF both_mounted_each_clears_its_own polling_parts])

theorem polling_intervals_witness:
  "due (mr_timers (systemMonitorEffect 0 [])) 5000 = [CallFetchSystemData]
   \<and> due (mr_timers (systemMonitorEffect 0 [])) 7000 = []
   \<and> due (mr_timers (systemMonitorEffect 0 [])) 10000 = [CallFetchSystemData]
   \<and> due (mr_timers (flowiseManagerEffect 0 [])) 30000 = [CallFetchFlowiseData]
   \<and> due (mr_timers (flowiseManagerEffect 0 [])) 5000 = []
   \<and> cleanup (systemMonitorEffect 0 []) (mr_timers (systemMonitorEffect 0 [])) = []
   \<and> cleanup (flowiseManagerEffect 0 []) (mr_timers (flowiseManagerEffect 0 [])) = []"
  using polling_intervals [of 0 "[]" 0 5000 "[]"] polling_intervals [of 0 "[]" 0 7000 "[]"]
    polling_intervals [of 0 "[]" 0 10000 "[]"] polling_intervals [of 0 "[]" 0 30000 "[]"]
  by (simp add: due_def)

section \<open>Properties of the traces\<close>
















text \<open>
  The status badge of FlowiseManager is not held to two values either: when the three
  requests of \<open>fetchFlowiseData\<close> are answered with a status outside 2xx, the
  configuration is left as it was, and the badge still shows the initial checking.
\<close>

lemma flowise_badge_stays_checking:
  "configAfter initialFlowiseConfig (fetchFlowiseData serverError serverError serverError)
     = Inr initialFlowiseConfig
   \<and> flowiseStatusBadge initialFlowiseConfig = Inr (JStr ''checking'')"
  by (simp add: configAfter_def fetchFlowiseData_def then_stage_def configStage_def
      chatflowsStage_def testStage_def serverError_def Let_def flowiseStatusBadge_def
      getprop_def nullish_def initialFlowiseConfig_def)

end
